theory Spec2Isabelle
  imports Main
begin

section \<open>Python values\<close>

text \<open>
  A policy document is a Python value built from \<open>None\<close>, booleans, integers, strings,
  lists and dictionaries. A dictionary keeps its insertion order, so it is an association
  list; its keys are strings, as in every JSON document. A Python string is a list of
  code points; the model covers code points below 256, one \<open>char\<close> each. Floats are
  outside the model.
\<close>

datatype pyval =
    PNone
  | PBool bool
  | PInt int
  | PStr string
  | PList "pyval list"
  | PDict "(string \<times> pyval) list"

datatype pytype = TNone | TBool | TInt | TStr | TList | TDict

text \<open>\<open>type(v)\<close>; note that \<open>type(True)\<close> is \<open>bool\<close>, not \<open>int\<close>.\<close>

fun type_of :: "pyval \<Rightarrow> pytype" where
  "type_of PNone = TNone"
| "type_of (PBool b) = TBool"
| "type_of (PInt i) = TInt"
| "type_of (PStr s) = TStr"
| "type_of (PList xs) = TList"
| "type_of (PDict kvs) = TDict"

text \<open>The truth value of \<open>if v:\<close>.\<close>

fun truthy :: "pyval \<Rightarrow> bool" where
  "truthy PNone = False"
| "truthy (PBool b) = b"
| "truthy (PInt i) = (i \<noteq> 0)"
| "truthy (PStr s) = (s \<noteq> [])"
| "truthy (PList xs) = (xs \<noteq> [])"
| "truthy (PDict kvs) = (kvs \<noteq> [])"

section \<open>Errors\<close>

text \<open>
  The reason carried by \<open>InvalidCustomPolicy\<close>. The source formats a message; the model
  keeps the message's fixed part as the constructor and its formatted fields as arguments:
  \<^item> \<open>MissingStatement\<close>: "policy is missing Statement"
  \<^item> \<open>EmptyStatement\<close>: "policy statement is empty"
  \<^item> \<open>MissingConditionBlock\<close>: "policy statement must have Condition block"
  \<^item> \<open>InvalidConditionKey key\<close>: "invalid condition key: \{key\} - key must be
    DateLessThan, DateGreaterThan, or IpAddress"
  \<^item> \<open>InvalidSubKey sub_key\<close>: "invalid condition key sub-key found: \{sub_key\}"
  \<^item> \<open>EpochTimeNotInt t\<close>: "AWS:EpochTime value must be of type 'int', not \{t\}"
  \<^item> \<open>SubKeyNotStr sub_key t\<close>: "\{sub_key\} value must be of type 'str', not \{t\}"
  \<^item> \<open>ConditionValueNotDict t\<close>: "condition key value must be of type 'dict', not \{t\}"
\<close>

datatype policy_fault =
    MissingStatement
  | EmptyStatement
  | MissingConditionBlock
  | InvalidConditionKey pyval
  | InvalidSubKey string
  | EpochTimeNotInt pytype
  | SubKeyNotStr string pytype
  | ConditionValueNotDict pytype

text \<open>
  The reason of a \<open>TypeError\<close>: the one the validator raises for a \<open>Resource\<close> that is
  not a string ("provided Resource must be of type 'str', not '\{t\}'"), and the ones the
  interpreter raises when a value of type \<open>t\<close> is subscripted with a string or iterated
  and does not support it.
\<close>

datatype type_fault =
    ResourceNotStr pytype
  | NotSubscriptable pytype
  | IndexNotInteger pytype
  | NotIterable pytype

datatype error =
    InvalidCustomPolicy policy_fault
  | InvalidCloudFrontKeyId string
  | PrivateKeyNotFound string
  | TypeError type_fault
  | ValueError string
  | KeyError string
  | OverflowError
  | LibraryError string

section \<open>Subscripting and iteration\<close>

text \<open>
  \<open>v[k]\<close> for a string \<open>k\<close>: a dictionary looks the key up and raises \<open>KeyError\<close> when
  it is absent; a list or a string takes integer indices only; nothing else can be
  subscripted.
\<close>

fun subscript :: "pyval \<Rightarrow> string \<Rightarrow> error + pyval" where
  "subscript (PDict kvs) k =
     (case map_of kvs k of None \<Rightarrow> Inl (KeyError k) | Some v \<Rightarrow> Inr v)"
| "subscript (PList xs) k = Inl (TypeError (IndexNotInteger TList))"
| "subscript (PStr s) k = Inl (TypeError (IndexNotInteger TStr))"
| "subscript v k = Inl (TypeError (NotSubscriptable (type_of v)))"

text \<open>
  \<open>for x in v\<close>: a dictionary yields its keys in insertion order, a list its elements, a
  string its one-character substrings; nothing else can be iterated.
\<close>

fun iterate :: "pyval \<Rightarrow> error + pyval list" where
  "iterate (PDict kvs) = Inr (map (\<lambda>kv. PStr (fst kv)) kvs)"
| "iterate (PList xs) = Inr xs"
| "iterate (PStr s) = Inr (map (\<lambda>c. PStr [c]) s)"
| "iterate v = Inl (TypeError (NotIterable (type_of v)))"

section \<open>The policy validator\<close>

definition allowed_condition_keys :: "string list" where
  "allowed_condition_keys = [''DateLessThan'', ''DateGreaterThan'', ''IpAddress'']"

definition allowed_condition_key_subkeys :: "(string \<times> string) list" where
  "allowed_condition_key_subkeys =
     [(''DateLessThan'', ''AWS:EpochTime''),
      (''DateGreaterThan'', ''AWS:EpochTime''),
      (''IpAddress'', ''AWS:SourceIp'')]"

text \<open>
  The body of each \<open>try\<close> block of the validator: read \<open>Condition\<close>, then \<open>Resource\<close>. A
  \<open>KeyError\<close> from either becomes \<open>InvalidCustomPolicy\<close>; any other exception is not
  caught.
\<close>

definition statement_fields :: "pyval \<Rightarrow> error + (pyval \<times> pyval)" where
  "statement_fields statement =
     (case subscript statement ''Condition'' of
        Inl (KeyError k) \<Rightarrow> Inl (InvalidCustomPolicy MissingConditionBlock)
      | Inl e \<Rightarrow> Inl e
      | Inr conditions \<Rightarrow>
          (case subscript statement ''Resource'' of
             Inl (KeyError k) \<Rightarrow> Inl (InvalidCustomPolicy MissingConditionBlock)
           | Inl e \<Rightarrow> Inl e
           | Inr resource \<Rightarrow> Inr (conditions, resource)))"

text \<open>
  The first part of the validator, up to the loop: the pair \<open>(conditions, resource)\<close>.
  Both start as \<open>{}\<close> and \<open>""\<close> and stay so when \<open>Statement\<close> is truthy but neither a
  list nor a dictionary: the \<open>if\<close>/\<open>elif\<close> chain has no \<open>else\<close>. A list that reaches
  \<open>statements[0]\<close> is not empty, since an empty list is falsy; the model's case for the
  empty list is never taken.
\<close>

definition examined_statement :: "pyval \<Rightarrow> error + (pyval \<times> pyval)" where
  "examined_statement policy =
     (case subscript policy ''Statement'' of
        Inl (KeyError k) \<Rightarrow> Inl (InvalidCustomPolicy MissingStatement)
      | Inl e \<Rightarrow> Inl e
      | Inr statements \<Rightarrow>
          if truthy statements then
            (case statements of
               PList sts \<Rightarrow>
                 (case sts of
                    [] \<Rightarrow> Inl (InvalidCustomPolicy EmptyStatement)
                  | statement # rest \<Rightarrow> statement_fields statement)
             | PDict kvs \<Rightarrow> statement_fields statements
             | _ \<Rightarrow> Inr (PDict [], PStr []))
          else Inl (InvalidCustomPolicy EmptyStatement))"

text \<open>
  The inner loop \<open>for sub_key in conditions[key]\<close>, over the keys still to visit. The
  second type check compares \<open>sub_key\<close> with \<open>"IpAddress"\<close>, as the source does.
\<close>

fun check_sub_keys :: "string \<Rightarrow> (string \<times> pyval) list \<Rightarrow> string list \<Rightarrow> error + unit" where
  "check_sub_keys key sub [] = Inr ()"
| "check_sub_keys key sub (sub_key # rest) =
     (case map_of allowed_condition_key_subkeys key of
        None \<Rightarrow> Inl (KeyError key)
      | Some allowed \<Rightarrow>
          if sub_key \<noteq> allowed then Inl (InvalidCustomPolicy (InvalidSubKey sub_key))
          else
            (case map_of sub sub_key of
               None \<Rightarrow> Inl (KeyError sub_key)
             | Some v \<Rightarrow>
                 if sub_key = ''AWS:EpochTime'' \<and> type_of v \<noteq> TInt
                 then Inl (InvalidCustomPolicy (EpochTimeNotInt (type_of v)))
                 else if sub_key = ''IpAddress'' \<and> type_of v \<noteq> TStr
                 then Inl (InvalidCustomPolicy (SubKeyNotStr sub_key (type_of v)))
                 else check_sub_keys key sub rest))"

text \<open>The outer loop \<open>for key in conditions\<close>, over the keys still to visit.\<close>

fun check_conditions :: "pyval \<Rightarrow> pyval list \<Rightarrow> error + unit" where
  "check_conditions conditions [] = Inr ()"
| "check_conditions conditions (key # rest) =
     (case key of
        PStr k \<Rightarrow>
          if k \<notin> set allowed_condition_keys
          then Inl (InvalidCustomPolicy (InvalidConditionKey key))
          else
            (case subscript conditions k of
               Inl e \<Rightarrow> Inl e
             | Inr v \<Rightarrow>
                 (case v of
                    PDict sub \<Rightarrow>
                      (case check_sub_keys k sub (map fst sub) of
                         Inl e \<Rightarrow> Inl e
                       | Inr u \<Rightarrow> check_conditions conditions rest)
                  | _ \<Rightarrow> Inl (InvalidCustomPolicy (ConditionValueNotDict (type_of v)))))
      | _ \<Rightarrow> Inl (InvalidCustomPolicy (InvalidConditionKey key)))"

definition validate_custom_policy :: "pyval \<Rightarrow> error + unit" where
  "validate_custom_policy policy =
     (case examined_statement policy of
        Inl e \<Rightarrow> Inl e
      | Inr (conditions, resource) \<Rightarrow>
          (case iterate conditions of
             Inl e \<Rightarrow> Inl e
           | Inr keys \<Rightarrow>
               (case check_conditions conditions keys of
                  Inl e \<Rightarrow> Inl e
                | Inr u \<Rightarrow>
                    if type_of resource \<noteq> TStr
                    then Inl (TypeError (ResourceNotStr (type_of resource)))
                    else Inr ())))"

section \<open>The canonicalizer\<close>

text \<open>
  \<open>json.dumps\<close> with its default options: separators \<open>", "\<close> and \<open>": "\<close>, dictionary
  entries in insertion order, and \<open>ensure_ascii\<close>, which writes every character outside
  the printable ASCII range as an escape.
\<close>

definition hex_digit :: "nat \<Rightarrow> char" where
  "hex_digit n = ''0123456789abcdef'' ! (n mod 16)"

fun digits10 :: "nat \<Rightarrow> string" where
  "digits10 n =
     (if n < 10 then [char_of (48 + n)]
      else digits10 (n div 10) @ [char_of (48 + n mod 10)])"

declare digits10.simps [simp del]

definition int_repr :: "int \<Rightarrow> string" where
  "int_repr i = (if i < 0 then CHR ''-'' # digits10 (nat (- i)) else digits10 (nat i))"

definition escape_char :: "char \<Rightarrow> string" where
  "escape_char c =
     (if c = CHR 0x22 then [CHR 0x5C, CHR 0x22]
      else if c = CHR 0x5C then [CHR 0x5C, CHR 0x5C]
      else if c = CHR 0x0A then [CHR 0x5C, CHR ''n'']
      else if c = CHR 0x0D then [CHR 0x5C, CHR ''r'']
      else if c = CHR 0x09 then [CHR 0x5C, CHR ''t'']
      else if c = CHR 0x08 then [CHR 0x5C, CHR ''b'']
      else if c = CHR 0x0C then [CHR 0x5C, CHR ''f'']
      else if (of_char c :: nat) < 32 \<or> 126 < (of_char c :: nat)
      then [CHR 0x5C, CHR ''u'', CHR ''0'', CHR ''0'',
            hex_digit (of_char c div 16), hex_digit (of_char c)]
      else [c])"

definition encode_str :: "string \<Rightarrow> string" where
  "encode_str s = [CHR 0x22] @ concat (map escape_char s) @ [CHR 0x22]"

text \<open>\<open>sep.join(xs)\<close>.\<close>

fun join :: "string \<Rightarrow> string list \<Rightarrow> string" where
  "join sep [] = []"
| "join sep [x] = x"
| "join sep (x # y # ys) = x @ sep @ join sep (y # ys)"

fun dumps :: "pyval \<Rightarrow> string" where
  "dumps PNone = ''null''"
| "dumps (PBool b) = (if b then ''true'' else ''false'')"
| "dumps (PInt i) = int_repr i"
| "dumps (PStr s) = encode_str s"
| "dumps (PList xs) = ''['' @ join '', '' (map dumps xs) @ '']''"
| "dumps (PDict kvs) =
     ''{'' @ join '', '' (map (\<lambda>(k, v). encode_str k @ '': '' @ dumps v) kvs) @ ''}''"

text \<open>\<open>s.replace(old, new)\<close> for a one-character \<open>old\<close>.\<close>

definition replace_char :: "char \<Rightarrow> string \<Rightarrow> string \<Rightarrow> string" where
  "replace_char old new s = concat (map (\<lambda>c. if c = old then new else [c]) s)"

definition to_json :: "pyval \<Rightarrow> string" where
  "to_json s = replace_char CHR '' '' [] (dumps s)"

text \<open>The dictionary that \<open>_make_canned_policy\<close> builds, and the function itself.\<close>

definition canned_policy_document :: "string \<Rightarrow> int \<Rightarrow> pyval" where
  "canned_policy_document resource expiration_date =
     PDict [(''Statement'',
       PList [PDict [(''Resource'', PStr resource),
                     (''Condition'',
                        PDict [(''DateLessThan'',
                          PDict [(''AWS:EpochTime'', PInt expiration_date)])])]])]"

definition make_canned_policy :: "string \<Rightarrow> int \<Rightarrow> string" where
  "make_canned_policy resource expiration_date =
     to_json (canned_policy_document resource expiration_date)"

section \<open>The key identifier check\<close>

text \<open>
  The pattern of \<open>Signer.__init__\<close>, item by item, and \<open>re.match\<close> on it. Every
  repetition of the pattern has a fixed count, so matching needs no backtracking.
  \<open>HexLower\<close> is one \<open>[0-9a-f]\<close>. \<open>Dollar\<close> matches at the end of the string and also just
  before a newline that ends the string; \<open>WordBoundary\<close> matches between a word character
  and a character that is not one (the ends of the string count as not one). The matcher
  carries the character before the current position, \<open>None\<close> at the start.
\<close>

datatype re_item = Caret | Dollar | WordBoundary | Lit char | HexLower

definition hex_lower :: "char \<Rightarrow> bool" where
  "hex_lower c =
     ((48 \<le> (of_char c :: nat) \<and> (of_char c :: nat) \<le> 57) \<or>
      (97 \<le> (of_char c :: nat) \<and> (of_char c :: nat) \<le> 102))"

text \<open>The characters that \<open>\w\<close> matches, among the code points below 256.\<close>

definition word_char :: "char \<Rightarrow> bool" where
  "word_char c =
     (let n = (of_char c :: nat) in
        (48 \<le> n \<and> n \<le> 57) \<or> (65 \<le> n \<and> n \<le> 90) \<or> n = 95 \<or> (97 \<le> n \<and> n \<le> 122) \<or>
        n = 170 \<or> n = 178 \<or> n = 179 \<or> n = 181 \<or> n = 185 \<or> n = 186 \<or>
        (188 \<le> n \<and> n \<le> 190) \<or> (192 \<le> n \<and> n \<le> 214) \<or>
        (216 \<le> n \<and> n \<le> 246) \<or> 248 \<le> n)"

definition word_before :: "char option \<Rightarrow> bool" where
  "word_before prev = (case prev of None \<Rightarrow> False | Some c \<Rightarrow> word_char c)"

definition word_after :: "string \<Rightarrow> bool" where
  "word_after s = (case s of [] \<Rightarrow> False | c # cs \<Rightarrow> word_char c)"

fun re_match_from :: "re_item list \<Rightarrow> char option \<Rightarrow> string \<Rightarrow> bool" where
  "re_match_from [] prev s = True"
| "re_match_from (Caret # r) prev s = (prev = None \<and> re_match_from r prev s)"
| "re_match_from (Dollar # r) prev s =
     ((s = [] \<or> s = [CHR 0x0A]) \<and> re_match_from r prev s)"
| "re_match_from (WordBoundary # r) prev s =
     (word_before prev \<noteq> word_after s \<and> re_match_from r prev s)"
| "re_match_from (Lit c # r) prev s =
     (case s of [] \<Rightarrow> False | x # xs \<Rightarrow> x = c \<and> re_match_from r (Some x) xs)"
| "re_match_from (HexLower # r) prev s =
     (case s of [] \<Rightarrow> False | x # xs \<Rightarrow> hex_lower x \<and> re_match_from r (Some x) xs)"

definition re_match :: "re_item list \<Rightarrow> string \<Rightarrow> bool" where
  "re_match pattern s = re_match_from pattern None s"

definition uuid_pattern :: "re_item list" where
  "uuid_pattern =
     [Caret] @ replicate 8 HexLower @ [WordBoundary, Lit CHR ''-''] @
     replicate 4 HexLower @ [WordBoundary, Lit CHR ''-''] @
     replicate 4 HexLower @ [WordBoundary, Lit CHR ''-''] @
     replicate 4 HexLower @ [WordBoundary, Lit CHR ''-''] @
     replicate 12 HexLower @ [Dollar]"

section \<open>The signer\<close>

text \<open>
  The object that \<open>Signer.__init__\<close> builds. The private key handle belongs to the
  cryptography library and is kept abstract.
\<close>

record 'k Signer =
  cloudfront_key_id :: string
  priv_key :: 'k

text \<open>
  The constructor. Its surroundings are parameters: \<open>files\<close> gives the bytes of each path
  that exists, and \<open>load_pem\<close> is \<open>serialization.load_pem_private_key\<close> with no password,
  which returns a key handle or raises.
\<close>

definition Signer_init ::
  "(string \<Rightarrow> error + 'k) \<Rightarrow> (string \<Rightarrow> string option) \<Rightarrow> string \<Rightarrow> string \<Rightarrow> error + 'k Signer"
where
  "Signer_init load_pem files key_id priv_key_file =
     (if \<not> re_match uuid_pattern key_id
      then Inl (InvalidCloudFrontKeyId ''CloudFront public key ID must be a UUID string'')
      else
        (case files priv_key_file of
           None \<Rightarrow> Inl (PrivateKeyNotFound (priv_key_file @ '' not found''))
         | Some key_bytes \<Rightarrow>
             (case load_pem key_bytes of
                Inl e \<Rightarrow> Inl e
              | Inr k \<Rightarrow> Inr \<lparr>cloudfront_key_id = key_id, priv_key = k\<rparr>)))"

text \<open>
  What a caller can ask of the library's \<open>sign\<close> method of a private key: a padding and
  a hash algorithm.
\<close>

datatype hash_algorithm = SHA1 | SHA224 | SHA256 | SHA384 | SHA512

datatype mask_generation = MGF1 hash_algorithm

datatype salt_length = MAX_LENGTH | DIGEST_LENGTH | AUTO | SaltBytes nat

datatype padding = PSS mask_generation salt_length | PKCS1v15

text \<open>\<open>str.encode()\<close>: UTF-8, for code points below 256.\<close>

definition utf8_char :: "char \<Rightarrow> string" where
  "utf8_char c =
     (if (of_char c :: nat) < 128 then [c]
      else [char_of (192 + (of_char c :: nat) div 64), char_of (128 + (of_char c :: nat) mod 64)])"

definition utf8_encode :: "string \<Rightarrow> string" where
  "utf8_encode s = concat (map utf8_char s)"

text \<open>
  \<open>_sign\<close>. The library's \<open>sign\<close> method is the parameter \<open>key_sign\<close>: it takes the key,
  the data, the padding and the hash algorithm, and returns the signature or raises.
  It stands for the one call that \<open>_sign\<close> makes, the random salt included.
\<close>

definition sign ::
  "('k \<Rightarrow> string \<Rightarrow> padding \<Rightarrow> hash_algorithm \<Rightarrow> error + string) \<Rightarrow> 'k Signer \<Rightarrow> string \<Rightarrow> error + string"
where
  "sign key_sign self policy =
     key_sign (priv_key self) (utf8_encode policy) (PSS (MGF1 SHA384) MAX_LENGTH) SHA384"

section \<open>The transport encoding\<close>

text \<open>\<open>base64.b64encode\<close>: three bytes become four characters of the standard alphabet.\<close>

definition b64_alphabet :: string where
  "b64_alphabet = ''ABCDEFGHIJKLMNOPQRSTUVWXYZabcdefghijklmnopqrstuvwxyz0123456789+/''"

definition b64_char :: "nat \<Rightarrow> char" where
  "b64_char n = b64_alphabet ! (n mod 64)"

fun b64encode :: "string \<Rightarrow> string" where
  "b64encode [] = []"
| "b64encode [a] =
     [b64_char (of_char a div 4), b64_char ((of_char a mod 4) * 16), CHR ''='', CHR ''='']"
| "b64encode [a, b] =
     [b64_char (of_char a div 4),
      b64_char ((of_char a mod 4) * 16 + of_char b div 16),
      b64_char ((of_char b mod 16) * 4), CHR ''='']"
| "b64encode (a # b # c # rest) =
     [b64_char (of_char a div 4),
      b64_char ((of_char a mod 4) * 16 + of_char b div 16),
      b64_char ((of_char b mod 16) * 4 + of_char c div 64),
      b64_char (of_char c mod 64)] @ b64encode rest"

text \<open>
  \<open>bytes.decode()\<close>, which the source applies to Base64 output only. Base64 output is
  ASCII (lemma \<open>b64encode_ascii\<close> below), and UTF-8 decoding of ASCII bytes gives the same
  code points.
\<close>

definition decode :: "string \<Rightarrow> string" where
  "decode bs = bs"

text \<open>
  \<open>_sanitize_b64\<close>: the loop over the dictionary \<open>{"+": "-", "=": "_", "/": "~"}\<close>, in
  its order.
\<close>

definition sanitize_b64 :: "string \<Rightarrow> string" where
  "sanitize_b64 s =
     fold (\<lambda>(k, v) s. replace_char k [v] s)
       [(CHR ''+'', CHR ''-''), (CHR ''='', CHR ''_''), (CHR ''/'', CHR ''~'')] s"

section \<open>The clock\<close>

text \<open>
  \<open>datetime.now()\<close> returns the local wall-clock time with no time zone attached; adding
  a \<open>timedelta\<close> to it is arithmetic on the wall clock; \<open>timestamp()\<close> then reads the
  result as local time and converts it to POSIX time with the zone's rules. The clock is
  a parameter of the model:
  \<^item> \<open>wall_now\<close> is what \<open>datetime.now()\<close> returns, in microseconds of wall-clock time
    counted from the wall clock's 1970-01-01 00:00:00;
  \<^item> \<open>utc_offset w\<close> is the offset from UTC, in seconds, that \<open>timestamp()\<close> applies to
    the wall-clock second \<open>w\<close> (constant for UTC or any zone without clock changes).

  A \<open>datetime\<close> lies between the years 1 and 9999; the addition raises \<open>OverflowError\<close>
  outside. \<open>timestamp()\<close> returns a float, which \<open>int\<close> truncates towards zero; the model
  computes in exact arithmetic, which agrees with the float below POSIX time \<open>2^33\<close>.
  Range errors of the platform's conversion at the two ends of the calendar are not
  modelled.
\<close>

record clock =
  wall_now :: int
  utc_offset :: "int \<Rightarrow> int"

definition datetime_min :: int where
  "datetime_min = - 62135596800 * 1000000"

definition datetime_max :: int where
  "datetime_max = 253402300799 * 1000000 + 999999"

text \<open>\<open>datetime.now() + timedelta(seconds=SecondsBeforeExpires)\<close>.\<close>

definition expires_on :: "clock \<Rightarrow> int \<Rightarrow> error + int" where
  "expires_on clk seconds =
     (let t = wall_now clk + seconds * 1000000
      in if t < datetime_min \<or> datetime_max < t then Inl OverflowError else Inr t)"

text \<open>\<open>int(d.timestamp())\<close> for a wall-clock time \<open>d\<close>.\<close>

definition timestamp_int :: "clock \<Rightarrow> int \<Rightarrow> int" where
  "timestamp_int clk d =
     (let s = d div 1000000; us = d mod 1000000; p = s - utc_offset clk s
      in if 0 \<le> p \<or> us = 0 then p else p + 1)"

section \<open>Generating the cookies\<close>

text \<open>
  The first half of \<open>generate_cookies\<close>: the policy string that is signed. The defaults
  of the source are \<open>Resource = ""\<close>, \<open>Policy = {}\<close> and \<open>SecondsBeforeExpires = 900\<close>.
\<close>

definition policy_string :: "clock \<Rightarrow> string \<Rightarrow> pyval \<Rightarrow> int \<Rightarrow> error + string" where
  "policy_string clk Resource Policy SecondsBeforeExpires =
     (if truthy Policy then
        (case validate_custom_policy Policy of
           Inl e \<Rightarrow> Inl e
         | Inr u \<Rightarrow> Inr (to_json Policy))
      else if Resource = [] then Inl (ValueError ''must provide a resource URL'')
      else
        (case expires_on clk SecondsBeforeExpires of
           Inl e \<Rightarrow> Inl e
         | Inr d \<Rightarrow> Inr (make_canned_policy Resource (timestamp_int clk d))))"

definition generate_cookies ::
  "('k \<Rightarrow> string \<Rightarrow> padding \<Rightarrow> hash_algorithm \<Rightarrow> error + string) \<Rightarrow> clock \<Rightarrow> 'k Signer \<Rightarrow>
   string \<Rightarrow> pyval \<Rightarrow> int \<Rightarrow> error + (string \<times> string) list"
where
  "generate_cookies key_sign clk self Resource Policy SecondsBeforeExpires =
     (case policy_string clk Resource Policy SecondsBeforeExpires of
        Inl e \<Rightarrow> Inl e
      | Inr policy \<Rightarrow>
          (case sign key_sign self policy of
             Inl e \<Rightarrow> Inl e
           | Inr signature \<Rightarrow>
               Inr [(''CloudFront-Policy'',
                       sanitize_b64 (decode (b64encode (utf8_encode policy)))),
                    (''CloudFront-Signature'',
                       sanitize_b64 (decode (b64encode signature))),
                    (''CloudFront-Key-Pair-Id'', cloudfront_key_id self)]))"

section \<open>Decoding a cookie value\<close>

text \<open>
  The two steps by which a reader recovers what a cookie value encodes; they are not
  part of the source. \<open>reverse_substitution\<close> maps \<open>-\<close> to \<open>+\<close>, \<open>_\<close> to \<open>=\<close> and \<open>~\<close>
  to \<open>/\<close>. \<open>b64decode\<close> is standard Base64 decoding: four characters at a time, padding
  only in the last group, and \<open>None\<close> for an input that is not well-formed Base64.
\<close>

definition reverse_substitution :: "string \<Rightarrow> string" where
  "reverse_substitution s =
     map (\<lambda>c. if c = CHR ''-'' then CHR ''+'' else if c = CHR ''_'' then CHR ''=''
               else if c = CHR ''~'' then CHR ''/'' else c) s"

fun index_of :: "'a \<Rightarrow> 'a list \<Rightarrow> nat option" where
  "index_of x [] = None"
| "index_of x (y # ys) =
     (if x = y then Some 0 else map_option Suc (index_of x ys))"

definition b64_value :: "char \<Rightarrow> nat option" where
  "b64_value c = index_of c b64_alphabet"

fun b64decode :: "string \<Rightarrow> string option" where
  "b64decode [] = Some []"
| "b64decode (c1 # c2 # c3 # c4 # rest) =
     (case (b64_value c1, b64_value c2) of
        (Some v1, Some v2) \<Rightarrow>
          if c3 = CHR ''='' \<and> c4 = CHR ''='' \<and> rest = [] then
            (if v2 mod 16 = 0 then Some [char_of (v1 * 4 + v2 div 16)] else None)
          else
            (case b64_value c3 of
               None \<Rightarrow> None
             | Some v3 \<Rightarrow>
                 if c4 = CHR ''='' \<and> rest = [] then
                   (if v3 mod 4 = 0
                    then Some [char_of (v1 * 4 + v2 div 16),
                               char_of ((v2 mod 16) * 16 + v3 div 4)]
                    else None)
                 else
                   (case b64_value c4 of
                      None \<Rightarrow> None
                    | Some v4 \<Rightarrow>
                        map_option
                          (\<lambda>bs. char_of (v1 * 4 + v2 div 16) #
                                char_of ((v2 mod 16) * 16 + v3 div 4) #
                                char_of ((v3 mod 4) * 64 + v4) # bs)
                          (b64decode rest)))
      | _ \<Rightarrow> None)"
| "b64decode cs = None"

section \<open>Auxiliary notions\<close>

text \<open>The printable ASCII characters, space to tilde.\<close>

definition printable :: "char \<Rightarrow> bool" where
  "printable c = (32 \<le> (of_char c :: nat) \<and> (of_char c :: nat) \<le> 126)"

text \<open>A small custom policy with an empty \<open>Condition\<close>, used as a concrete input.\<close>

definition example_policy :: pyval where
  "example_policy =
     PDict [(''Statement'',
       PDict [(''Resource'', PStr ''https://x/y''), (''Condition'', PDict [])])]"

text \<open>
  A clock in a zone that sets its clocks back by one hour: the wall clock reads
  2024-11-03 01:50:00, ten minutes before the change at 02:00:00 wall-clock time
  (US Eastern time; the offset is four hours before the change and five hours after).
\<close>

definition fall_back_clock :: clock where
  "fall_back_clock =
     \<lparr>wall_now = 1730598600 * 1000000,
      utc_offset = (\<lambda>w. if w < 1730599200 then - 14400 else - 18000)\<rparr>"

text \<open>
  The format of a key identifier in the specification's words: 36 characters, lower-case
  hexadecimal digits in groups of 8, 4, 4, 4 and 12, with a hyphen between the groups.
\<close>

definition uuid_format :: "string \<Rightarrow> bool" where
  "uuid_format s =
     (length s = 36 \<and>
      list_all hex_lower (take 8 s) \<and> s ! 8 = CHR ''-'' \<and>
      list_all hex_lower (take 4 (drop 9 s)) \<and> s ! 13 = CHR ''-'' \<and>
      list_all hex_lower (take 4 (drop 14 s)) \<and> s ! 18 = CHR ''-'' \<and>
      list_all hex_lower (take 4 (drop 19 s)) \<and> s ! 23 = CHR ''-'' \<and>
      list_all hex_lower (drop 24 s))"

section \<open>Properties of the canonicalizer\<close>

lemma replace_char_filter: "replace_char c [] s = filter (\<lambda>x. x \<noteq> c) s"
  by (induction s) (simp_all add: replace_char_def)

lemma join_set: "set (join sep xs) \<subseteq> set sep \<union> \<Union> (set ` set xs)"
  by (induction sep xs rule: join.induct) auto

lemma filter_join: "filter P (join sep xs) = join (filter P sep) (map (filter P) xs)"
  by (induction sep xs rule: join.induct) simp_all

lemma digit_char_code: "n < 10 \<Longrightarrow> (of_char (char_of (48 + n)) :: nat) = 48 + n"
  by (simp add: of_char_of)

lemma digits10_range: "c \<in> set (digits10 n) \<Longrightarrow> 48 \<le> (of_char c :: nat) \<and> (of_char c :: nat) \<le> 57"
proof (induction n arbitrary: c rule: digits10.induct)
  case (1 n)
  show ?case
  proof (cases "n < 10")
    case True
    with "1.prems" have "c = char_of (48 + n)"
      by (simp add: digits10.simps [of n])
    with True show ?thesis by (simp add: digit_char_code)
  next
    case False
    with "1.prems" have "c \<in> set (digits10 (n div 10)) \<or> c = char_of (48 + n mod 10)"
      by (auto simp add: digits10.simps [of n])
    then show ?thesis
    proof
      assume "c \<in> set (digits10 (n div 10))"
      with False "1.IH" show ?thesis by blast
    next
      assume "c = char_of (48 + n mod 10)"
      then show ?thesis by (simp add: digit_char_code)
    qed
  qed
qed

lemma digits10_nonempty: "digits10 n \<noteq> []"
  by (subst digits10.simps) simp

lemma int_repr_printable:
  assumes "c \<in> set (int_repr i)"
  shows "printable c"
proof -
  from assms consider "c = CHR ''-''" | n where "c \<in> set (digits10 n)"
    by (auto simp: int_repr_def split: if_splits)
  then show ?thesis
  proof cases
    case 1
    then show ?thesis by (simp add: printable_def)
  next
    case (2 n)
    from digits10_range [OF this] show ?thesis by (simp add: printable_def)
  qed
qed

lemma hex_digit_mem: "hex_digit n \<in> set ''0123456789abcdef''"
  unfolding hex_digit_def by (rule nth_mem) simp

lemma hex_digit_printable: "printable (hex_digit n)"
  using hex_digit_mem [of n] by (auto simp: printable_def)

lemma escape_char_printable: "x \<in> set (escape_char c) \<Longrightarrow> printable x"
  using hex_digit_printable
  by (auto simp: escape_char_def printable_def split: if_splits)

lemma encode_str_printable: "x \<in> set (encode_str s) \<Longrightarrow> printable x"
  using escape_char_printable by (auto simp: encode_str_def printable_def)

lemma dumps_printable: "x \<in> set (dumps d) \<Longrightarrow> printable x"
proof (induction d arbitrary: x)
  case PNone
  then show ?case by (auto simp: printable_def)
next
  case (PBool b)
  then show ?case by (auto simp: printable_def split: if_splits)
next
  case (PInt i)
  then show ?case by (simp add: int_repr_printable)
next
  case (PStr s)
  then show ?case by (simp add: encode_str_printable)
next
  case (PList xs)
  have "set (join '', '' (map dumps xs)) \<subseteq> set '', '' \<union> \<Union> (set ` set (map dumps xs))"
    by (rule join_set)
  with PList show ?case by (auto simp: printable_def)
next
  case (PDict kvs)
  have "set (join '', '' (map (\<lambda>(k, v). encode_str k @ '': '' @ dumps v) kvs))
          \<subseteq> set '', '' \<union> \<Union> (set ` set (map (\<lambda>(k, v). encode_str k @ '': '' @ dumps v) kvs))"
    by (rule join_set)
  moreover have "printable y" if "(k, v) \<in> set kvs" "y \<in> set (encode_str k @ '': '' @ dumps v)" for k v y
    using that PDict.IH [of "(k, v)" v y] encode_str_printable [of y k]
    by (auto simp: printable_def)
  ultimately show ?case using PDict.prems by (auto simp: printable_def)
qed

lemma dumps_no_newline: "CHR 0x0A \<notin> set (dumps d)"
  using dumps_printable [of "CHR 0x0A" d] by (auto simp: printable_def)

lemma dumps_first: "\<exists>c cs. dumps d = c # cs \<and> c \<noteq> CHR '' ''"
proof (cases d)
  case (PInt i)
  obtain c cs where cs: "digits10 (nat \<bar>i\<bar>) = c # cs"
    using digits10_nonempty [of "nat \<bar>i\<bar>"] by (cases "digits10 (nat \<bar>i\<bar>)") auto
  then have "c \<in> set (digits10 (nat \<bar>i\<bar>))" by simp
  then have "c \<noteq> CHR '' ''" using digits10_range [of c "nat \<bar>i\<bar>"] by auto
  with cs PInt show ?thesis by (cases "i < 0") (simp_all add: int_repr_def)
qed (simp_all add: encode_str_def)

lemma to_json_nonempty: "to_json d \<noteq> []"
  using dumps_first [of d] by (auto simp: to_json_def replace_char_filter)

lemma to_json_no_space: "CHR '' '' \<notin> set (to_json d)"
  by (simp add: to_json_def replace_char_filter)

lemma to_json_no_newline: "CHR 0x0A \<notin> set (to_json d)"
  using dumps_no_newline [of d] by (simp add: to_json_def replace_char_filter)

lemma to_json_list: "to_json (PList xs) = ''['' @ join '','' (map to_json xs) @ '']''"
  unfolding to_json_def replace_char_filter by (simp add: filter_join comp_def)

lemma to_json_dict:
  "to_json (PDict kvs) =
     ''{'' @ join '','' (map (\<lambda>(k, v). replace_char CHR '' '' [] (encode_str k) @ '':'' @ to_json v) kvs) @ ''}''"
  unfolding to_json_def replace_char_filter by (simp add: filter_join comp_def case_prod_unfold)

text \<open>
  Claim C1. The canonical string of a policy document is a function of the document alone.
  It contains no space at all, whether the space came from a separator or from inside a
  string value or a key; it is not empty and does not end with a newline; the entries of
  a dictionary appear in the dictionary's own order, and so do the elements of a list.
\<close>

theorem to_json_canonical:
  "CHR '' '' \<notin> set (to_json doc) \<and>
   to_json doc \<noteq> [] \<and> last (to_json doc) \<noteq> CHR 0x0A \<and>
   to_json (PDict kvs) =
     ''{'' @ join '','' (map (\<lambda>(k, v). replace_char CHR '' '' [] (encode_str k) @ '':'' @ to_json v) kvs) @ ''}'' \<and>
   to_json (PList xs) = ''['' @ join '','' (map to_json xs) @ '']''"
proof -
  have "last (to_json doc) \<in> set (to_json doc)"
    using to_json_nonempty by (rule last_in_set)
  then have "last (to_json doc) \<noteq> CHR 0x0A"
    using to_json_no_newline [of doc] by auto
  then show ?thesis
    using to_json_no_space to_json_nonempty to_json_dict to_json_list by blast
qed

theorem to_json_canonical_witness:
  "CHR '' '' \<notin> set (to_json (PStr ''a b'')) \<and>
   to_json (PDict [(''a b'', PStr ''c d''), (''e'', PBool True)]) =
     [CHR ''{'', CHR 0x22, CHR ''a'', CHR ''b'', CHR 0x22, CHR '':'',
      CHR 0x22, CHR ''c'', CHR ''d'', CHR 0x22, CHR '','',
      CHR 0x22, CHR ''e'', CHR 0x22, CHR '':'', CHR ''t'', CHR ''r'', CHR ''u'', CHR ''e'',
      CHR ''}'']"
  using to_json_canonical [of "PStr ''a b''" "[(''a b'', PStr ''c d''), (''e'', PBool True)]" "[]"]
  by (simp add: to_json_def replace_char_def encode_str_def escape_char_def)

section \<open>Properties of the transport encoding\<close>

lemma index_of_nth: "distinct xs \<Longrightarrow> n < length xs \<Longrightarrow> index_of (xs ! n) xs = Some n"
proof (induction xs arbitrary: n)
  case Nil
  then show ?case by simp
next
  case (Cons x xs)
  show ?case
  proof (cases n)
    case 0
    then show ?thesis by simp
  next
    case (Suc m)
    with Cons.prems have "xs ! m \<in> set xs" "x \<notin> set xs" by auto
    then have "xs ! m \<noteq> x" by auto
    with Suc Cons show ?thesis by simp
  qed
qed

lemma b64_alphabet_length: "length b64_alphabet = 64"
  by (simp add: b64_alphabet_def)

lemma b64_alphabet_distinct: "distinct b64_alphabet"
  by (simp add: b64_alphabet_def)

lemma b64_char_mem: "b64_char n \<in> set b64_alphabet"
  unfolding b64_char_def by (rule nth_mem) (simp add: b64_alphabet_length)

lemma b64_value_char: "n < 64 \<Longrightarrow> b64_value (b64_char n) = Some n"
  by (simp add: b64_value_def b64_char_def index_of_nth b64_alphabet_distinct b64_alphabet_length)

lemma b64_char_not_pad: "b64_char n \<noteq> CHR ''=''"
  using b64_char_mem [of n] by (auto simp: b64_alphabet_def)

lemma octets1:
  fixes a b c :: nat
  assumes "b < 256"
  shows "(a div 4) * 4 + ((a mod 4) * 16 + b div 16) div 16 = a"
proof -
  have "b div 16 < 16" using assms by simp
  then have "((a mod 4) * 16 + b div 16) div 16 = a mod 4" by simp
  then show ?thesis by simp
qed

lemma octets2:
  fixes a b c :: nat
  assumes "b < 256" "c < 256"
  shows "(((a mod 4) * 16 + b div 16) mod 16) * 16 + ((b mod 16) * 4 + c div 64) div 4 = b"
proof -
  have "b div 16 < 16" using assms by simp
  then have 1: "((a mod 4) * 16 + b div 16) mod 16 = b div 16" by simp
  have "c div 64 < 4" using assms by simp
  then have 2: "((b mod 16) * 4 + c div 64) div 4 = b mod 16" by simp
  show ?thesis unfolding 1 2 by simp
qed

lemma octets3:
  fixes a b c :: nat
  assumes "c < 256"
  shows "(((b mod 16) * 4 + c div 64) mod 4) * 64 + c mod 64 = c"
proof -
  have "c div 64 < 4" using assms by simp
  then have 1: "((b mod 16) * 4 + c div 64) mod 4 = c div 64" by simp
  show ?thesis unfolding 1 by simp
qed

lemma octets4:
  fixes a b :: nat
  shows "(a div 4) * 4 + ((a mod 4) * 16) div 16 = a"
    and "((a mod 4) * 16) mod 16 = 0"
    and "((b mod 16) * 4) mod 4 = 0"
  by simp_all

lemma octets5:
  fixes a b :: nat
  assumes "b < 256"
  shows "(((a mod 4) * 16 + b div 16) mod 16) * 16 + ((b mod 16) * 4) div 4 = b"
proof -
  have "b div 16 < 16" using assms by simp
  then have 1: "((a mod 4) * 16 + b div 16) mod 16 = b div 16" by simp
  show ?thesis unfolding 1 by simp
qed

lemma sextets:
  fixes a b c :: nat
  assumes "a < 256" "b < 256" "c < 256"
  shows "a div 4 < 64" "(a mod 4) * 16 + b div 16 < 64" "(b mod 16) * 4 + c div 64 < 64"
    "c mod 64 < 64" "(a mod 4) * 16 < 64" "(b mod 16) * 4 < 64"
proof -
  have "a mod 4 < 4" "b mod 16 < 16" "b div 16 < 16" "c div 64 < 4"
    using assms by simp_all
  then show "a div 4 < 64" "(a mod 4) * 16 + b div 16 < 64" "(b mod 16) * 4 + c div 64 < 64"
    "c mod 64 < 64" "(a mod 4) * 16 < 64" "(b mod 16) * 4 < 64"
    using assms by simp_all
qed

lemma code_lt: "(of_char (c :: char) :: nat) < 256"
  by simp

lemma b64decode_group:
  assumes "s1 < 64" "s2 < 64" "s3 < 64" "s4 < 64"
  shows "b64decode (b64_char s1 # b64_char s2 # b64_char s3 # b64_char s4 # rest) =
     map_option
       (\<lambda>bs. char_of (s1 * 4 + s2 div 16) # char_of ((s2 mod 16) * 16 + s3 div 4) #
             char_of ((s3 mod 4) * 64 + s4) # bs)
       (b64decode rest)"
  using assms by (simp add: b64_value_char b64_char_not_pad)

lemma b64decode_last2:
  assumes "s1 < 64" "s2 < 64" "s3 < 64" "s3 mod 4 = 0"
  shows "b64decode [b64_char s1, b64_char s2, b64_char s3, CHR ''=''] =
     Some [char_of (s1 * 4 + s2 div 16), char_of ((s2 mod 16) * 16 + s3 div 4)]"
  using assms by (simp add: b64_value_char b64_char_not_pad)

lemma b64decode_last1:
  assumes "s1 < 64" "s2 < 64" "s2 mod 16 = 0"
  shows "b64decode [b64_char s1, b64_char s2, CHR ''='', CHR ''=''] =
     Some [char_of (s1 * 4 + s2 div 16)]"
  using assms by (simp add: b64_value_char b64_char_not_pad)

lemma b64decode_b64encode: "b64decode (b64encode bs) = Some bs"
proof (induction bs rule: b64encode.induct)
  case 1
  show ?case by simp
next
  case (2 a)
  let ?a = "of_char a :: nat"
  note s = sextets [OF code_lt [of a] code_lt [of a] code_lt [of a]]
  have "b64decode (b64encode [a]) = Some [char_of (?a div 4 * 4 + ?a mod 4 * 16 div 16)]"
    unfolding b64encode.simps by (rule b64decode_last1) (rule s octets4)+
  also have "\<dots> = Some [a]"
    by (simp only: octets4 char_of_char)
  finally show ?case .
next
  case (3 a b)
  let ?a = "of_char a :: nat" and ?b = "of_char b :: nat"
  note s = sextets [OF code_lt [of a] code_lt [of b] code_lt [of b]]
  have "b64decode (b64encode [a, b]) =
      Some [char_of (?a div 4 * 4 + (?a mod 4 * 16 + ?b div 16) div 16),
            char_of ((?a mod 4 * 16 + ?b div 16) mod 16 * 16 + ?b mod 16 * 4 div 4)]"
    unfolding b64encode.simps by (rule b64decode_last2) (rule s octets4)+
  also have "\<dots> = Some [a, b]"
    by (simp only: octets1 [OF code_lt] octets5 [OF code_lt] char_of_char)
  finally show ?case .
next
  case (4 a b c rest)
  let ?a = "of_char a :: nat" and ?b = "of_char b :: nat" and ?c = "of_char c :: nat"
  note s = sextets [OF code_lt [of a] code_lt [of b] code_lt [of c]]
  have "b64decode (b64encode (a # b # c # rest)) =
      map_option
       (\<lambda>bs. char_of (?a div 4 * 4 + (?a mod 4 * 16 + ?b div 16) div 16) #
             char_of ((?a mod 4 * 16 + ?b div 16) mod 16 * 16 + (?b mod 16 * 4 + ?c div 64) div 4) #
             char_of ((?b mod 16 * 4 + ?c div 64) mod 4 * 64 + ?c mod 64) # bs)
       (b64decode (b64encode rest))"
    unfolding b64encode.simps append.simps by (rule b64decode_group) (rule s)+
  also have "\<dots> = Some (a # b # c # rest)"
    by (simp only: 4 octets1 [OF code_lt] octets2 [OF code_lt code_lt] octets3 [OF code_lt]
        char_of_char option.map)
  finally show ?case .
qed

lemma b64_alphabet_ascii: "c \<in> set b64_alphabet \<Longrightarrow> (of_char c :: nat) < 128"
  by (auto simp: b64_alphabet_def)

lemma b64_alphabet_plain:
  "CHR ''-'' \<notin> set b64_alphabet" "CHR ''_'' \<notin> set b64_alphabet" "CHR ''~'' \<notin> set b64_alphabet"
  by (simp_all add: b64_alphabet_def)

lemma b64encode_chars: "c \<in> set (b64encode bs) \<Longrightarrow> c = CHR ''='' \<or> c \<in> set b64_alphabet"
  by (induction bs rule: b64encode.induct) (auto simp: b64_char_mem)

lemma b64encode_ascii: "c \<in> set (b64encode bs) \<Longrightarrow> (of_char c :: nat) < 128"
  using b64encode_chars [of c bs] b64_alphabet_ascii [of c] by auto

lemma sanitize_b64_map:
  "sanitize_b64 s =
     map (\<lambda>c. if c = CHR ''+'' then CHR ''-'' else if c = CHR ''='' then CHR ''_''
               else if c = CHR ''/'' then CHR ''~'' else c) s"
  by (induction s) (simp_all add: sanitize_b64_def replace_char_def)

lemma reverse_sanitize:
  "CHR ''-'' \<notin> set s \<Longrightarrow> CHR ''_'' \<notin> set s \<Longrightarrow> CHR ''~'' \<notin> set s \<Longrightarrow>
   reverse_substitution (sanitize_b64 s) = s"
  by (induction s) (auto simp: sanitize_b64_map reverse_substitution_def)

lemma reverse_sanitize_b64encode:
  "reverse_substitution (sanitize_b64 (decode (b64encode bs))) = b64encode bs"
proof -
  have "CHR ''-'' \<notin> set (b64encode bs)" "CHR ''_'' \<notin> set (b64encode bs)"
    "CHR ''~'' \<notin> set (b64encode bs)"
    using b64encode_chars [of _ bs] b64_alphabet_plain by auto
  then show ?thesis by (simp add: decode_def reverse_sanitize)
qed

lemma to_json_printable: "x \<in> set (to_json d) \<Longrightarrow> printable x"
  by (auto simp: to_json_def replace_char_filter dumps_printable)

lemma utf8_encode_ascii: "(\<And>c. c \<in> set s \<Longrightarrow> (of_char c :: nat) < 128) \<Longrightarrow> utf8_encode s = s"
  by (induction s) (simp_all add: utf8_encode_def utf8_char_def)

lemma utf8_encode_to_json: "utf8_encode (to_json d) = to_json d"
proof (rule utf8_encode_ascii)
  fix c assume "c \<in> set (to_json d)"
  then have "printable c" by (rule to_json_printable)
  then show "(of_char c :: nat) < 128" by (simp add: printable_def)
qed

lemma policy_string_to_json:
  "policy_string clk Resource Policy SecondsBeforeExpires = Inr policy \<Longrightarrow> \<exists>d. policy = to_json d"
  by (auto simp: policy_string_def make_canned_policy_def split: if_splits sum.splits)

lemma generate_cookies_Inr:
  "generate_cookies key_sign clk self Resource Policy SecondsBeforeExpires = Inr cookies \<Longrightarrow>
   \<exists>policy signature.
     policy_string clk Resource Policy SecondsBeforeExpires = Inr policy \<and>
     sign key_sign self policy = Inr signature \<and>
     cookies =
       [(''CloudFront-Policy'', sanitize_b64 (decode (b64encode (utf8_encode policy)))),
        (''CloudFront-Signature'', sanitize_b64 (decode (b64encode signature))),
        (''CloudFront-Key-Pair-Id'', cloudfront_key_id self)]"
  by (auto simp: generate_cookies_def split: sum.splits)

text \<open>
  Claim C2. Whenever \<open>generate_cookies\<close> returns, the value of its \<open>CloudFront-Policy\<close>
  cookie decodes to the policy string that was signed: undoing the substitution and then
  decoding standard Base64 gives the UTF-8 bytes of that string, and these bytes are the
  string's own characters, since the canonical string is ASCII.
\<close>

theorem policy_cookie_round_trip:
  assumes "generate_cookies key_sign clk self Resource Policy SecondsBeforeExpires = Inr cookies"
  shows "\<exists>policy signature value.
     policy_string clk Resource Policy SecondsBeforeExpires = Inr policy \<and>
     sign key_sign self policy = Inr signature \<and>
     map_of cookies ''CloudFront-Policy'' = Some value \<and>
     b64decode (reverse_substitution value) = Some (utf8_encode policy) \<and>
     utf8_encode policy = policy"
proof -
  from generate_cookies_Inr [OF assms] obtain policy signature where
    p: "policy_string clk Resource Policy SecondsBeforeExpires = Inr policy" and
    s: "sign key_sign self policy = Inr signature" and
    c: "cookies =
       [(''CloudFront-Policy'', sanitize_b64 (decode (b64encode (utf8_encode policy)))),
        (''CloudFront-Signature'', sanitize_b64 (decode (b64encode signature))),
        (''CloudFront-Key-Pair-Id'', cloudfront_key_id self)]"
    by blast
  from policy_string_to_json [OF p] have u: "utf8_encode policy = policy"
    by (auto simp: utf8_encode_to_json)
  have v: "map_of cookies ''CloudFront-Policy'' =
      Some (sanitize_b64 (decode (b64encode (utf8_encode policy))))"
    by (simp add: c)
  have "b64decode (reverse_substitution (sanitize_b64 (decode (b64encode (utf8_encode policy))))) =
      Some (utf8_encode policy)"
    by (simp only: reverse_sanitize_b64encode b64decode_b64encode)
  with p s u v show ?thesis by blast
qed

lemma example_policy_valid: "validate_custom_policy example_policy = Inr ()"
  by (simp add: example_policy_def validate_custom_policy_def examined_statement_def
      statement_fields_def)

theorem policy_cookie_round_trip_witness:
  "\<exists>cookies value.
     generate_cookies (\<lambda>k d p h. Inr ''sig'') \<lparr>wall_now = 0, utc_offset = (\<lambda>w. 0)\<rparr>
       \<lparr>cloudfront_key_id = ''id'', priv_key = ()\<rparr> [] example_policy 900 = Inr cookies \<and>
     map_of cookies ''CloudFront-Policy'' = Some value \<and>
     b64decode (reverse_substitution value) = Some (to_json example_policy)"
proof -
  let ?g = "generate_cookies (\<lambda>k d p h. Inr ''sig'') \<lparr>wall_now = 0, utc_offset = (\<lambda>w. 0)\<rparr>
       \<lparr>cloudfront_key_id = ''id'', priv_key = ()\<rparr> [] example_policy 900"
  have t: "truthy example_policy" by (simp add: example_policy_def)
  have p: "policy_string \<lparr>wall_now = 0, utc_offset = (\<lambda>w. 0)\<rparr> [] example_policy 900 =
      Inr (to_json example_policy)"
    by (simp add: policy_string_def t example_policy_valid)
  then obtain cookies where g: "?g = Inr cookies"
    by (simp add: generate_cookies_def sign_def)
  from policy_cookie_round_trip [OF g] p g show ?thesis
    by auto
qed

section \<open>Properties of the validator\<close>

lemma statement_fields_empty_condition:
  assumes "map_of st ''Resource'' = Some (PStr r)" and "map_of st ''Condition'' = Some (PDict [])"
  shows "statement_fields (PDict st) = Inr (PDict [], PStr r)"
  using assms by (simp add: statement_fields_def)

text \<open>
  Claim C10. A custom policy whose examined statement (the \<open>Statement\<close> dictionary itself,
  or the first element of the \<open>Statement\<close> list) has a string \<open>Resource\<close> and an empty
  \<open>Condition\<close> dictionary is accepted: the loop over the condition keys has nothing to
  check.
\<close>

theorem empty_condition_accepted:
  assumes "map_of policy ''Statement'' = Some statements"
    and "statements = PDict st \<or> (\<exists>rest. statements = PList (PDict st # rest))"
    and "map_of st ''Resource'' = Some (PStr r)"
    and "map_of st ''Condition'' = Some (PDict [])"
  shows "validate_custom_policy (PDict policy) = Inr ()"
proof -
  have f: "statement_fields (PDict st) = Inr (PDict [], PStr r)"
    using assms(3,4) by (rule statement_fields_empty_condition)
  from assms(3) have ne: "st \<noteq> []" by auto
  from assms(2) have "examined_statement (PDict policy) = Inr (PDict [], PStr r)"
  proof
    assume "statements = PDict st"
    with assms(1) f ne show ?thesis by (simp add: examined_statement_def)
  next
    assume "\<exists>rest. statements = PList (PDict st # rest)"
    with assms(1) f show ?thesis by (auto simp: examined_statement_def)
  qed
  then show ?thesis by (simp add: validate_custom_policy_def)
qed

theorem empty_condition_accepted_witness:
  "validate_custom_policy
     (PDict [(''Statement'',
        PDict [(''Resource'', PStr ''https://x/y''), (''Condition'', PDict [])])]) = Inr () \<and>
   validate_custom_policy
     (PDict [(''Statement'',
        PList [PDict [(''Resource'', PStr ''https://x/y''), (''Condition'', PDict [])],
               PInt 7])]) = Inr ()"
  using
    empty_condition_accepted [of
      "[(''Statement'', PDict [(''Resource'', PStr ''https://x/y''), (''Condition'', PDict [])])]"
      "PDict [(''Resource'', PStr ''https://x/y''), (''Condition'', PDict [])]"
      "[(''Resource'', PStr ''https://x/y''), (''Condition'', PDict [])]" "''https://x/y''"]
    empty_condition_accepted [of
      "[(''Statement'', PList [PDict [(''Resource'', PStr ''https://x/y''), (''Condition'', PDict [])], PInt 7])]"
      "PList [PDict [(''Resource'', PStr ''https://x/y''), (''Condition'', PDict [])], PInt 7]"
      "[(''Resource'', PStr ''https://x/y''), (''Condition'', PDict [])]" "''https://x/y''"]
  by simp

text \<open>
  The type check of the \<open>AWS:EpochTime\<close> value does run: a policy whose \<open>Condition\<close>
  dictionary has a date condition with a non-integer \<open>AWS:EpochTime\<close> is rejected with
  \<open>InvalidCustomPolicy\<close> (by this check, or by one that fails earlier in the loop).
\<close>

lemma check_sub_keys_error:
  assumes "key \<in> set allowed_condition_keys" and "set keys \<subseteq> fst ` set sub"
    and "check_sub_keys key sub keys = Inl e"
  shows "\<exists>fault. e = InvalidCustomPolicy fault"
  using assms
proof (induction keys)
  case Nil
  then show ?case by simp
next
  case (Cons sub_key rest)
  from Cons.prems(1) obtain allowed where a: "map_of allowed_condition_key_subkeys key = Some allowed"
    by (auto simp: allowed_condition_keys_def allowed_condition_key_subkeys_def)
  from Cons.prems(2) obtain v where v: "map_of sub sub_key = Some v"
    by (cases "map_of sub sub_key") (auto simp: map_of_eq_None_iff)
  from Cons show ?case
    by (auto simp: a v split: if_splits)
qed

lemma check_sub_keys_epoch_time:
  assumes "key = ''DateLessThan'' \<or> key = ''DateGreaterThan''"
    and "map_of sub ''AWS:EpochTime'' = Some v" and "type_of v \<noteq> TInt"
    and "keys \<noteq> []"
  shows "\<exists>fault. check_sub_keys key sub keys = Inl (InvalidCustomPolicy fault)"
proof -
  from assms(4) obtain sub_key rest where k: "keys = sub_key # rest"
    by (cases keys) auto
  from assms(1) have a: "map_of allowed_condition_key_subkeys key = Some ''AWS:EpochTime''"
    by (auto simp: allowed_condition_key_subkeys_def)
  show ?thesis
    by (simp add: k a assms(2,3))
qed

lemma check_conditions_epoch_time:
  assumes "map_of conditions k = Some (PDict sub)"
    and "k = ''DateLessThan'' \<or> k = ''DateGreaterThan''"
    and "map_of sub ''AWS:EpochTime'' = Some v" and "type_of v \<noteq> TInt"
    and "set ks \<subseteq> fst ` set conditions" and "k \<in> set ks"
  shows "\<exists>fault. check_conditions (PDict conditions) (map PStr ks) = Inl (InvalidCustomPolicy fault)"
  using assms(5,6)
proof (induction ks)
  case Nil
  then show ?case by simp
next
  case (Cons h rest)
  show ?case
  proof (cases "h \<in> set allowed_condition_keys")
    case False
    then show ?thesis by simp
  next
    case True
    from Cons.prems(1) obtain w where w: "map_of conditions h = Some w"
      by (cases "map_of conditions h") (auto simp: map_of_eq_None_iff)
    show ?thesis
    proof (cases w)
      case (PDict sub')
      show ?thesis
      proof (cases "check_sub_keys h sub' (map fst sub')")
        case (Inl e)
        from check_sub_keys_error [OF True _ Inl] obtain fault where "e = InvalidCustomPolicy fault"
          by auto
        with True w PDict Inl show ?thesis by simp
      next
        case (Inr u)
        have "h \<noteq> k"
        proof
          assume "h = k"
          with w PDict assms(1) have s: "sub' = sub" by simp
          from assms(3) have "map fst sub \<noteq> []" by auto
          from check_sub_keys_epoch_time [OF assms(2,3,4) this] Inr s \<open>h = k\<close>
          show False by auto
        qed
        with Cons.prems have "k \<in> set rest" "set rest \<subseteq> fst ` set conditions" by auto
        from Cons.IH [OF this(2,1)] True w PDict Inr show ?thesis by simp
      qed
    qed (use True w in simp_all)
  qed
qed

lemma epoch_time_type_checked:
  assumes "examined_statement policy = Inr (PDict conditions, resource)"
    and "map_of conditions k = Some (PDict sub)"
    and "k = ''DateLessThan'' \<or> k = ''DateGreaterThan''"
    and "map_of sub ''AWS:EpochTime'' = Some v" and "type_of v \<noteq> TInt"
  shows "\<exists>fault. validate_custom_policy policy = Inl (InvalidCustomPolicy fault)"
proof -
  from assms(2) have "(k, PDict sub) \<in> set conditions"
    by (rule map_of_SomeD)
  then have "k \<in> set (map fst conditions)"
    by force
  then have "\<exists>fault. check_conditions (PDict conditions) (map PStr (map fst conditions)) =
      Inl (InvalidCustomPolicy fault)"
    by (intro check_conditions_epoch_time [OF assms(2,3,4,5)]) auto
  then show ?thesis
    by (auto simp: validate_custom_policy_def assms(1) comp_def)
qed

text \<open>
  Claim C4. The type check of the \<open>AWS:SourceIp\<close> value never runs: the validator
  compares the sub-key with \<open>"IpAddress"\<close>, which is a condition key and never an allowed
  sub-key. A policy whose \<open>AWS:SourceIp\<close> value is the integer 5 is accepted, and so is
  one with any other value \<open>v\<close> in its place.
\<close>

theorem source_ip_type_not_checked:
  "validate_custom_policy
     (PDict [(''Statement'',
        PDict [(''Resource'', PStr ''https://x/y''),
               (''Condition'', PDict [(''IpAddress'', PDict [(''AWS:SourceIp'', PInt 5)])])])])
   = Inr () \<and>
   validate_custom_policy
     (PDict [(''Statement'',
        PDict [(''Resource'', PStr ''https://x/y''),
               (''Condition'', PDict [(''IpAddress'', PDict [(''AWS:SourceIp'', v)])])])])
   = Inr ()"
  by (simp add: validate_custom_policy_def examined_statement_def statement_fields_def
      allowed_condition_keys_def allowed_condition_key_subkeys_def)

text \<open>
  Claim C5. When \<open>Statement\<close> is truthy and neither a list nor a dictionary, no branch of
  the validator reads it, and the policy is accepted with the initial empty conditions
  and empty resource; when the first element of a \<open>Statement\<close> list is not a dictionary,
  subscripting it raises the interpreter's \<open>TypeError\<close>, which is not caught.
\<close>

theorem malformed_statement_not_rejected:
  "validate_custom_policy (PDict [(''Statement'', PInt 5)]) = Inr () \<and>
   validate_custom_policy (PDict [(''Statement'', PStr ''abc'')]) = Inr () \<and>
   validate_custom_policy (PDict [(''Statement'', PList [PInt 5])]) =
     Inl (TypeError (NotSubscriptable TInt))"
  by (simp add: validate_custom_policy_def examined_statement_def statement_fields_def)

section \<open>Properties of the signer\<close>

text \<open>
  Claim C3. Every call of \<open>_sign\<close> asks the library for a signature of the UTF-8 bytes of
  the policy string with PSS padding, MGF1 over SHA-384, the maximal salt length, and
  SHA-384 as the hash. Nothing else of the library is used: \<open>_sign\<close> and
  \<open>generate_cookies\<close> give the same result for a library that answers every request as
  it would answer this one.
\<close>

theorem sign_scheme_fixed:
  "sign key_sign self policy =
     key_sign (priv_key self) (utf8_encode policy) (PSS (MGF1 SHA384) MAX_LENGTH) SHA384 \<and>
   sign key_sign self policy =
     sign (\<lambda>k d p h. key_sign k d (PSS (MGF1 SHA384) MAX_LENGTH) SHA384) self policy \<and>
   generate_cookies key_sign clk self Resource Policy S =
     generate_cookies (\<lambda>k d p h. key_sign k d (PSS (MGF1 SHA384) MAX_LENGTH) SHA384)
       clk self Resource Policy S"
  unfolding generate_cookies_def sign_def by simp

theorem sign_scheme_fixed_witness:
  "sign (\<lambda>k d p h. if p = PSS (MGF1 SHA384) MAX_LENGTH \<and> h = SHA384 then Inr ''pss'' else Inr ''other'')
     \<lparr>cloudfront_key_id = ''id'', priv_key = ()\<rparr> ''{}'' = Inr ''pss''"
  using sign_scheme_fixed [of
      "\<lambda>k d p h. if p = PSS (MGF1 SHA384) MAX_LENGTH \<and> h = SHA384 then Inr ''pss'' else Inr ''other''"
      "\<lparr>cloudfront_key_id = ''id'', priv_key = ()\<rparr>" "''{}''"]
  by simp

lemma Signer_init_key_id:
  "Signer_init load_pem files key_id priv_key_file = Inr self \<Longrightarrow> cloudfront_key_id self = key_id"
  by (auto simp: Signer_init_def split: if_splits option.splits sum.splits)

lemma example_uuid_matches: "re_match uuid_pattern ''550e8400-e29b-41d4-a716-446655440000''"
  by (simp add: re_match_def uuid_pattern_def hex_lower_def word_before_def word_after_def
      word_char_def numeral_eq_Suc)

text \<open>
  The check of the key identifier comes first: an identifier that the pattern rejects
  fails whatever the key file is, and one that it accepts gives a signer as soon as the
  key file exists and loads. The pattern accepts exactly the strings of the UUID format
  and those strings followed by one newline.
\<close>

lemma Signer_init_eager:
  "\<not> re_match uuid_pattern key_id \<Longrightarrow>
   Signer_init load_pem files key_id priv_key_file =
     Inl (InvalidCloudFrontKeyId ''CloudFront public key ID must be a UUID string'')"
  by (simp add: Signer_init_def)

lemma Signer_init_accepts:
  "re_match uuid_pattern key_id \<Longrightarrow> files priv_key_file = Some key_bytes \<Longrightarrow>
   load_pem key_bytes = Inr k \<Longrightarrow>
   Signer_init load_pem files key_id priv_key_file = Inr \<lparr>cloudfront_key_id = key_id, priv_key = k\<rparr>"
  by (simp add: Signer_init_def)

lemma hex_lower_word: "hex_lower c \<Longrightarrow> word_char c"
  by (auto simp: hex_lower_def word_char_def)

lemma dash_not_word: "\<not> word_char CHR ''-''"
  by (simp add: word_char_def)

lemma re_match_hex_group:
  assumes "n = 0 \<longrightarrow> word_before prev"
  shows "re_match_from (replicate n HexLower @ WordBoundary # Lit CHR ''-'' # r) prev s \<longleftrightarrow>
     n < length s \<and> list_all hex_lower (take n s) \<and> s ! n = CHR ''-'' \<and>
     re_match_from r (Some CHR ''-'') (drop (Suc n) s)"
  using assms
proof (induction n arbitrary: prev s)
  case 0
  then show ?case
    by (cases s) (auto simp: word_after_def dash_not_word)
next
  case (Suc n)
  show ?case
  proof (cases s)
    case Nil
    then show ?thesis by simp
  next
    case (Cons c cs)
    show ?thesis
    proof (cases "hex_lower c")
      case True
      then have "n = 0 \<longrightarrow> word_before (Some c)"
        by (simp add: word_before_def hex_lower_word)
      from Suc.IH [OF this, of cs] True Cons show ?thesis by simp
    next
      case False
      with Cons show ?thesis by simp
    qed
  qed
qed

lemma re_match_hex_end:
  "re_match_from (replicate n HexLower @ [Dollar]) prev s \<longleftrightarrow>
     n \<le> length s \<and> list_all hex_lower (take n s) \<and>
     (drop n s = [] \<or> drop n s = [CHR 0x0A])"
proof (induction n arbitrary: prev s)
  case 0
  then show ?case by simp
next
  case (Suc n)
  show ?case
    by (cases s) (auto simp: Suc.IH)
qed

lemma uuid_pattern_groups:
  "re_match uuid_pattern s \<longleftrightarrow>
     8 < length s \<and> list_all hex_lower (take 8 s) \<and> s ! 8 = CHR ''-'' \<and>
     4 < length (drop 9 s) \<and> list_all hex_lower (take 4 (drop 9 s)) \<and> drop 9 s ! 4 = CHR ''-'' \<and>
     4 < length (drop 14 s) \<and> list_all hex_lower (take 4 (drop 14 s)) \<and> drop 14 s ! 4 = CHR ''-'' \<and>
     4 < length (drop 19 s) \<and> list_all hex_lower (take 4 (drop 19 s)) \<and> drop 19 s ! 4 = CHR ''-'' \<and>
     12 \<le> length (drop 24 s) \<and> list_all hex_lower (take 12 (drop 24 s)) \<and>
     (drop 36 s = [] \<or> drop 36 s = [CHR 0x0A])"
proof -
  have "re_match uuid_pattern s =
      re_match_from (replicate 8 HexLower @ WordBoundary # Lit CHR ''-'' #
        (replicate 4 HexLower @ WordBoundary # Lit CHR ''-'' #
          (replicate 4 HexLower @ WordBoundary # Lit CHR ''-'' #
            (replicate 4 HexLower @ WordBoundary # Lit CHR ''-'' #
              (replicate 12 HexLower @ [Dollar]))))) None s"
    by (simp add: re_match_def uuid_pattern_def)
  moreover have g8: "re_match_from (replicate 8 HexLower @ WordBoundary # Lit CHR ''-'' # r) prev t \<longleftrightarrow>
     8 < length t \<and> list_all hex_lower (take 8 t) \<and> t ! 8 = CHR ''-'' \<and>
     re_match_from r (Some CHR ''-'') (drop (Suc 8) t)" for r prev t
    by (rule re_match_hex_group) simp
  moreover have g4: "re_match_from (replicate 4 HexLower @ WordBoundary # Lit CHR ''-'' # r) prev t \<longleftrightarrow>
     4 < length t \<and> list_all hex_lower (take 4 t) \<and> t ! 4 = CHR ''-'' \<and>
     re_match_from r (Some CHR ''-'') (drop (Suc 4) t)" for r prev t
    by (rule re_match_hex_group) simp
  ultimately show ?thesis
    by (simp only: re_match_hex_end drop_drop) simp
qed

lemma uuid_pattern_format:
  "re_match uuid_pattern s \<longleftrightarrow> uuid_format s \<or> (\<exists>u. s = u @ [CHR 0x0A] \<and> uuid_format u)"
proof
  assume "re_match uuid_pattern s"
  then have g: "8 < length s" "list_all hex_lower (take 8 s)" "s ! 8 = CHR ''-''"
     "list_all hex_lower (take 4 (drop 9 s))" "drop 9 s ! 4 = CHR ''-''"
     "list_all hex_lower (take 4 (drop 14 s))" "drop 14 s ! 4 = CHR ''-''"
     "list_all hex_lower (take 4 (drop 19 s))" "drop 19 s ! 4 = CHR ''-''"
     "12 \<le> length (drop 24 s)" "list_all hex_lower (take 12 (drop 24 s))"
     "drop 36 s = [] \<or> drop 36 s = [CHR 0x0A]"
    by (simp_all add: uuid_pattern_groups)
  from g(10) have l: "36 \<le> length s" by simp
  from g(12) show "uuid_format s \<or> (\<exists>u. s = u @ [CHR 0x0A] \<and> uuid_format u)"
  proof
    assume "drop 36 s = []"
    with l have "length s = 36" by simp
    with g have "uuid_format s" by (simp add: uuid_format_def)
    then show ?thesis ..
  next
    assume d: "drop 36 s = [CHR 0x0A]"
    then have s: "s = take 36 s @ [CHR 0x0A]"
      by (metis append_take_drop_id)
    have t: "length (take 36 s) = 36" using l by simp
    have "uuid_format (take 36 s)"
      using g l by (simp add: uuid_format_def take_drop min_def)
    with s show ?thesis by blast
  qed
next
  assume "uuid_format s \<or> (\<exists>u. s = u @ [CHR 0x0A] \<and> uuid_format u)"
  then show "re_match uuid_pattern s"
  proof
    assume "uuid_format s"
    then show ?thesis by (simp add: uuid_format_def uuid_pattern_groups)
  next
    assume "\<exists>u. s = u @ [CHR 0x0A] \<and> uuid_format u"
    then obtain u where "s = u @ [CHR 0x0A]" "uuid_format u" by blast
    then show ?thesis by (simp add: uuid_format_def uuid_pattern_groups nth_append)
  qed
qed

text \<open>
  Claim C8. The pattern ends with \<open>$\<close>, which also matches just before a newline that
  ends the string. A key identifier made of a UUID followed by a newline passes the check,
  and the constructor returns a signer that carries it.
\<close>

theorem newline_key_id_accepted:
  "Signer_init (\<lambda>b. Inr ()) (\<lambda>p. Some []) (''550e8400-e29b-41d4-a716-446655440000'' @ [CHR 0x0A])
     ''private_key.pem'' =
   Inr \<lparr>cloudfront_key_id = ''550e8400-e29b-41d4-a716-446655440000'' @ [CHR 0x0A], priv_key = ()\<rparr>"
  by (simp add: Signer_init_def re_match_def uuid_pattern_def hex_lower_def word_before_def
      word_after_def word_char_def numeral_eq_Suc)

section \<open>Properties of cookie generation\<close>

text \<open>
  Claim C7. The three cases of \<open>generate_cookies\<close>, each with the whole result of the call.
  A truthy \<open>Policy\<close> is validated; a validation error is the result, and otherwise the
  policy is serialized as it is, signed and encoded, so that the result does not depend on
  \<open>Resource\<close>, \<open>SecondsBeforeExpires\<close> or the clock. With a falsy \<open>Policy\<close> and an empty
  \<open>Resource\<close> the call raises \<open>ValueError\<close>. With a falsy \<open>Policy\<close> and a non-empty
  \<open>Resource\<close>, and only then, the canned policy for that resource and the expiry read
  from the clock is built, signed and encoded.
\<close>

theorem generate_cookies_selection:
  "(truthy Policy \<longrightarrow>
      generate_cookies key_sign clk self Resource Policy S =
        (case validate_custom_policy Policy of
           Inl e \<Rightarrow> Inl e
         | Inr u \<Rightarrow>
             (case sign key_sign self (to_json Policy) of
                Inl e \<Rightarrow> Inl e
              | Inr signature \<Rightarrow>
                  Inr [(''CloudFront-Policy'',
                          sanitize_b64 (decode (b64encode (utf8_encode (to_json Policy))))),
                       (''CloudFront-Signature'', sanitize_b64 (decode (b64encode signature))),
                       (''CloudFront-Key-Pair-Id'', cloudfront_key_id self)])) \<and>
      generate_cookies key_sign clk self Resource Policy S =
        generate_cookies key_sign clk' self Resource' Policy S') \<and>
   (\<not> truthy Policy \<and> Resource = [] \<longrightarrow>
      generate_cookies key_sign clk self Resource Policy S =
        Inl (ValueError ''must provide a resource URL'')) \<and>
   (\<not> truthy Policy \<and> Resource \<noteq> [] \<longrightarrow>
      generate_cookies key_sign clk self Resource Policy S =
        (case expires_on clk S of
           Inl e \<Rightarrow> Inl e
         | Inr d \<Rightarrow>
             (case sign key_sign self (make_canned_policy Resource (timestamp_int clk d)) of
                Inl e \<Rightarrow> Inl e
              | Inr signature \<Rightarrow>
                  Inr [(''CloudFront-Policy'',
                          sanitize_b64 (decode (b64encode (utf8_encode
                            (make_canned_policy Resource (timestamp_int clk d)))))),
                       (''CloudFront-Signature'', sanitize_b64 (decode (b64encode signature))),
                       (''CloudFront-Key-Pair-Id'', cloudfront_key_id self)])))"
  by (simp add: policy_string_def generate_cookies_def split: sum.splits)

theorem generate_cookies_selection_witness:
  "generate_cookies (\<lambda>k d p h. Inr ''sig'') \<lparr>wall_now = 0, utc_offset = (\<lambda>w. 0)\<rparr>
     \<lparr>cloudfront_key_id = ''id'', priv_key = ()\<rparr> ''https://x/y'' example_policy 900 =
     Inr [(''CloudFront-Policy'',
             sanitize_b64 (decode (b64encode (utf8_encode (to_json example_policy))))),
          (''CloudFront-Signature'', sanitize_b64 (decode (b64encode ''sig''))),
          (''CloudFront-Key-Pair-Id'', ''id'')] \<and>
   generate_cookies (\<lambda>k d p h. Inr ''sig'') \<lparr>wall_now = 0, utc_offset = (\<lambda>w. 0)\<rparr>
     \<lparr>cloudfront_key_id = ''id'', priv_key = ()\<rparr> [] (PDict []) 900 =
     Inl (ValueError ''must provide a resource URL'') \<and>
   generate_cookies (\<lambda>k d p h. Inr ''sig'') \<lparr>wall_now = 0, utc_offset = (\<lambda>w. 0)\<rparr>
     \<lparr>cloudfront_key_id = ''id'', priv_key = ()\<rparr> ''https://x/y'' (PDict []) 900 =
     Inr [(''CloudFront-Policy'',
             sanitize_b64 (decode (b64encode (utf8_encode (make_canned_policy ''https://x/y'' 900))))),
          (''CloudFront-Signature'', sanitize_b64 (decode (b64encode ''sig''))),
          (''CloudFront-Key-Pair-Id'', ''id'')]"
proof -
  let ?ks = "\<lambda>(k :: unit) (d :: string) (p :: padding) (h :: hash_algorithm). (Inr ''sig'' :: error + string)"
  let ?clk = "\<lparr>wall_now = 0, utc_offset = (\<lambda>w. 0)\<rparr>"
  let ?self = "\<lparr>cloudfront_key_id = ''id'', priv_key = ()\<rparr>"
  have v: "validate_custom_policy example_policy = Inr ()"
    by (simp add: example_policy_def validate_custom_policy_def examined_statement_def
        statement_fields_def)
  have t: "truthy example_policy" by (simp add: example_policy_def)
  have e: "expires_on ?clk 900 = Inr 900000000"
    by (simp add: expires_on_def datetime_min_def datetime_max_def)
  have i: "timestamp_int ?clk 900000000 = 900"
    by (simp add: timestamp_int_def)
  have s: "sign ?ks ?self p = Inr ''sig''" for p
    by (simp add: sign_def)
  show ?thesis
    using
      generate_cookies_selection [where Policy = example_policy and clk = ?clk
        and Resource = "''https://x/y''" and S = 900 and key_sign = ?ks and self = ?self
        and clk' = ?clk and Resource' = "''https://x/y''" and S' = 900]
      generate_cookies_selection [where Policy = "PDict []" and clk = ?clk
        and Resource = "[]" and S = 900 and key_sign = ?ks and self = ?self
        and clk' = ?clk and Resource' = "[]" and S' = 900]
      generate_cookies_selection [where Policy = "PDict []" and clk = ?clk
        and Resource = "''https://x/y''" and S = 900 and key_sign = ?ks and self = ?self
        and clk' = ?clk and Resource' = "''https://x/y''" and S' = 900]
    by (simp add: v t e i s)
qed

text \<open>
  Claim C9. The dictionary that \<open>generate_cookies\<close> returns has three entries, named
  \<open>CloudFront-Policy\<close>, \<open>CloudFront-Signature\<close> and \<open>CloudFront-Key-Pair-Id\<close>, and the last
  one holds the key identifier that was given to the constructor, unchanged.
\<close>

theorem cookies_three_entries:
  assumes "Signer_init load_pem files key_id priv_key_file = Inr self"
    and "generate_cookies key_sign clk self Resource Policy S = Inr cookies"
  shows "length cookies = 3 \<and>
     map fst cookies = [''CloudFront-Policy'', ''CloudFront-Signature'', ''CloudFront-Key-Pair-Id''] \<and>
     map_of cookies ''CloudFront-Key-Pair-Id'' = Some key_id"
  using generate_cookies_Inr [OF assms(2)] Signer_init_key_id [OF assms(1)] by auto

theorem cookies_three_entries_witness:
  "\<exists>self cookies.
     Signer_init (\<lambda>b. Inr ()) (\<lambda>p. Some []) ''550e8400-e29b-41d4-a716-446655440000''
       ''private_key.pem'' = Inr self \<and>
     generate_cookies (\<lambda>k d p h. Inr ''sig'') \<lparr>wall_now = 0, utc_offset = (\<lambda>w. 0)\<rparr> self
       [] example_policy 900 = Inr cookies \<and>
     length cookies = 3 \<and>
     map_of cookies ''CloudFront-Key-Pair-Id'' = Some ''550e8400-e29b-41d4-a716-446655440000''"
proof -
  let ?self = "\<lparr>cloudfront_key_id = ''550e8400-e29b-41d4-a716-446655440000'', priv_key = ()\<rparr>"
  have i: "Signer_init (\<lambda>b. Inr ()) (\<lambda>p. Some []) ''550e8400-e29b-41d4-a716-446655440000''
       ''private_key.pem'' = Inr ?self"
    by (simp add: Signer_init_def example_uuid_matches)
  have v: "validate_custom_policy example_policy = Inr ()"
    by (simp add: example_policy_def validate_custom_policy_def examined_statement_def
        statement_fields_def)
  have t: "truthy example_policy" by (simp add: example_policy_def)
  obtain cookies where g: "generate_cookies (\<lambda>k d p h. Inr ''sig'')
      \<lparr>wall_now = 0, utc_offset = (\<lambda>w. 0)\<rparr> ?self [] example_policy 900 = Inr cookies"
    by (simp add: generate_cookies_def policy_string_def sign_def v t)
  from cookies_three_entries [OF i g] i g show ?thesis by blast
qed

lemma canned_policy_document_shape:
  "\<exists>statement conditions.
     subscript (canned_policy_document resource expiration) ''Statement'' = Inr (PList [statement]) \<and>
     subscript statement ''Resource'' = Inr (PStr resource) \<and>
     subscript statement ''Condition'' = Inr (PDict conditions) \<and>
     map fst conditions = [''DateLessThan''] \<and>
     map_of conditions ''DateLessThan'' = Some (PDict [(''AWS:EpochTime'', PInt expiration)])"
  by (simp add: canned_policy_document_def)

lemma fixed_offset_expiry:
  assumes "\<And>w. utc_offset clk w = off"
    and "0 \<le> wall_now clk div 1000000 - off"
    and "0 \<le> wall_now clk div 1000000 - off + S"
  shows "timestamp_int clk (wall_now clk + S * 1000000) = timestamp_int clk (wall_now clk) + S"
proof -
  have d: "(wall_now clk + S * 1000000) div 1000000 = wall_now clk div 1000000 + S"
    by simp
  from assms(2,3) show ?thesis
    by (simp add: timestamp_int_def Let_def d assms(1))
qed

text \<open>
  Claim C6. The expiry is computed on the wall clock and converted to POSIX time with the
  offset that holds at the expiry, not at the call. On \<open>fall_back_clock\<close> the call is made
  at POSIX time 1730613000 with the default 900 seconds, and the policy that is signed
  carries 1730617500: the call time plus 900 seconds plus one hour. (With a constant
  offset the value is the call time plus the seconds, lemma \<open>fixed_offset_expiry\<close>.)
\<close>

theorem canned_expiry_off_by_an_hour:
  "timestamp_int fall_back_clock (wall_now fall_back_clock) = 1730613000 \<and>
   policy_string fall_back_clock ''https://cdn.example.com/video.mp4'' (PDict []) 900 =
     Inr (to_json (canned_policy_document ''https://cdn.example.com/video.mp4''
       (1730613000 + 900 + 3600)))"
proof -
  have e: "expires_on fall_back_clock 900 = Inr 1730599500000000"
    by (simp add: expires_on_def fall_back_clock_def datetime_min_def datetime_max_def)
  have t: "timestamp_int fall_back_clock 1730599500000000 = 1730617500"
    by (simp add: timestamp_int_def fall_back_clock_def)
  have n: "timestamp_int fall_back_clock (wall_now fall_back_clock) = 1730613000"
    by (simp add: timestamp_int_def fall_back_clock_def)
  show ?thesis
    by (simp add: policy_string_def make_canned_policy_def e t n)
qed

end
